theory Spec2Isabelle
  imports Complex_Main "HOL-Library.Word" "HOL-Library.Sublist"
begin

section \<open>JavaScript values used by the order form\<close>

subsection \<open>Strings\<close>

text \<open>
  A JavaScript string is a sequence of UTF-16 code units. \<open>ascii\<close> writes the ASCII part
  of a literal; the other glyphs of \<^verbatim>\<open>App.tsx\<close> are given by their code units.
\<close>

type_synonym jsstring = "16 word list"

definition ascii :: "string \<Rightarrow> jsstring" where
  "ascii s = map of_char s"

definition rupee :: jsstring where \<comment> \<open>U+20B9, the currency glyph of the plan keys\<close>
  "rupee = [0x20B9]"

definition emdash :: jsstring where \<comment> \<open>U+2014, the placeholder of an empty optional field\<close>
  "emdash = [0x2014]"

text \<open>
  \<^verbatim>\<open>String.prototype.trim\<close> removes the code points WhiteSpace and LineTerminator of
  ECMAScript from both ends; all of them are single code units.
\<close>

definition is_ws :: "16 word \<Rightarrow> bool" where
  "is_ws c = (c \<in> set [0x09, 0x0A, 0x0B, 0x0C, 0x0D, 0x20, 0xA0, 0x1680,
                        0x2028, 0x2029, 0x202F, 0x205F, 0x3000, 0xFEFF]
              \<or> (0x2000 \<le> c \<and> c \<le> 0x200A))"

definition trim :: "jsstring \<Rightarrow> jsstring" where
  "trim s = rev (dropWhile is_ws (rev (dropWhile is_ws s)))"

subsection \<open>Numbers\<close>

text \<open>
  A Number is a binary64 value: not-a-number, an infinity, or a finite value, kept as the
  rational it denotes (the sign of zero is not kept; nothing below observes it).
\<close>

datatype jsnum = NaN | PosInf | NegInf | Fin rat

definition pow2 :: "int \<Rightarrow> rat" where
  "pow2 k = (if 0 \<le> k then 2 ^ nat k else 1 / 2 ^ nat (- k))"

fun bit_length :: "nat \<Rightarrow> nat" where \<comment> \<open>the number of binary digits\<close>
  "bit_length n = (if n = 0 then 0 else Suc (bit_length (n div 2)))"

declare bit_length.simps [simp del]

definition ilog2 :: "rat \<Rightarrow> int" where \<comment> \<open>the binary exponent of a positive rational\<close>
  "ilog2 x =
     (if 1 \<le> x then int (bit_length (nat \<lfloor>x\<rfloor>)) - 1
      else - int (bit_length (nat (\<lceil>1 / x\<rceil> - 1))))"

definition round_half_even :: "rat \<Rightarrow> int" where
  "round_half_even x =
     (let f = \<lfloor>x\<rfloor>; d = x - of_int f
      in if d < 1 / 2 then f else if 1 / 2 < d then f + 1 else if even f then f else f + 1)"

text \<open>
  Rounding a rational to binary64 (roundTiesToEven): 53 significant bits, a smallest
  exponent of -1022 (below it the spacing stays \<open>2 ^ -1074\<close>), overflow to an infinity.
  Every arithmetic result and every numeric literal of the source goes through it.
\<close>

definition to_double :: "rat \<Rightarrow> jsnum" where
  "to_double x =
     (if x = 0 then Fin 0
      else let e = max (ilog2 \<bar>x\<bar>) (- 1022);
               u = pow2 (e - 52);
               y = of_int (round_half_even (x / u)) * u
           in if 2 ^ 1024 \<le> y then PosInf
              else if y \<le> - (2 ^ 1024) then NegInf
              else Fin y)"

fun js_sign :: "jsnum \<Rightarrow> int" where
  "js_sign NaN = 0"
| "js_sign PosInf = 1"
| "js_sign NegInf = - 1"
| "js_sign (Fin a) = (if 0 < a then 1 else if a < 0 then - 1 else 0)"

fun Number_isNaN :: "jsnum \<Rightarrow> bool" where
  "Number_isNaN NaN = True"
| "Number_isNaN _ = False"

fun Number_isFinite :: "jsnum \<Rightarrow> bool" where
  "Number_isFinite (Fin a) = True"
| "Number_isFinite _ = False"

text \<open>The operator \<^verbatim>\<open>*\<close> on Numbers.\<close>

definition js_mul :: "jsnum \<Rightarrow> jsnum \<Rightarrow> jsnum" where
  "js_mul x y =
     (case (x, y) of
        (Fin a, Fin b) \<Rightarrow> to_double (a * b)
      | _ \<Rightarrow> if Number_isNaN x \<or> Number_isNaN y \<or> js_sign x * js_sign y = 0 then NaN
             else if 0 < js_sign x * js_sign y then PosInf
             else NegInf)"

text \<open>The operator \<^verbatim>\<open><\<close> on Numbers: false as soon as one side is not-a-number.\<close>

fun js_lt :: "jsnum \<Rightarrow> jsnum \<Rightarrow> bool" where
  "js_lt NaN _ = False"
| "js_lt _ NaN = False"
| "js_lt (Fin a) (Fin b) = (a < b)"
| "js_lt NegInf NegInf = False"
| "js_lt NegInf _ = True"
| "js_lt _ NegInf = False"
| "js_lt PosInf _ = False"
| "js_lt _ PosInf = True"

text \<open>\<^verbatim>\<open>Math.round\<close>: the nearest integer, a tie going towards plus infinity.\<close>

fun Math_round :: "jsnum \<Rightarrow> jsnum" where
  "Math_round (Fin a) = Fin (of_int \<lfloor>a + 1 / 2\<rfloor>)"
| "Math_round x = x"

text \<open>
  The values an expression of the form can take: \<^verbatim>\<open>undefined\<close>, a Number, or a member that
  an object literal inherits from \<^verbatim>\<open>Object.prototype\<close> (a built-in function, or the
  prototype itself for \<^verbatim>\<open>__proto__\<close>), named by its property key.
\<close>

datatype jsval = Undefined | Num jsnum | Inherited jsstring

fun ToNumber :: "jsval \<Rightarrow> jsnum" where
  "ToNumber (Num n) = n"
| "ToNumber Undefined = NaN"
| "ToNumber (Inherited k) = NaN" \<comment> \<open>the text of a built-in is not a numeric literal\<close>

fun nullish_coalesce :: "jsval \<Rightarrow> jsval \<Rightarrow> jsval" where \<comment> \<open>the operator \<^verbatim>\<open>??\<close>\<close>
  "nullish_coalesce Undefined d = d"
| "nullish_coalesce v d = v"

fun digits10 :: "nat \<Rightarrow> jsstring" where
  "digits10 n =
     (if n < 10 then [of_nat (48 + n)] else digits10 (n div 10) @ [of_nat (48 + n mod 10)])"

declare digits10.simps [simp del]

text \<open>
  The text of a value inside a template literal. For an integer below \<open>2 ^ 53\<close> it is the
  decimal digits, which are computed; the text of any other finite Number (the shortest
  decimal that reads back as the same binary64) and of an inherited built-in
  (implementation-defined) is left to the parameter \<open>host\<close>.
\<close>

fun ToString :: "(jsval \<Rightarrow> jsstring) \<Rightarrow> jsval \<Rightarrow> jsstring" where
  "ToString host Undefined = ascii ''undefined''"
| "ToString host (Num NaN) = ascii ''NaN''"
| "ToString host (Num PosInf) = ascii ''Infinity''"
| "ToString host (Num NegInf) = ascii ''-Infinity''"
| "ToString host (Num (Fin a)) =
     (if a = of_int \<lfloor>a\<rfloor> \<and> \<bar>a\<bar> < 2 ^ 53
      then (if a < 0 then ascii ''-'' else []) @ digits10 (nat \<bar>\<lfloor>a\<rfloor>\<bar>)
      else host (Num (Fin a)))"
| "ToString host (Inherited k) = host (Inherited k)"

section \<open>Constants and form state\<close>

definition key_Single :: jsstring where
  "key_Single = ascii ''Single ('' @ rupee @ ascii ''199)''"

definition key_3_Month :: jsstring where
  "key_3_Month = ascii ''3-Month ('' @ rupee @ ascii ''499)''"

definition key_6_Month :: jsstring where
  "key_6_Month = ascii ''6-Month ('' @ rupee @ ascii ''999)''"

definition key_12_Month :: jsstring where
  "key_12_Month = ascii ''12-Month ('' @ rupee @ ascii ''1999)''"

definition PLAN_PRICES :: "(jsstring \<times> jsnum) list" where
  "PLAN_PRICES =
     [(key_Single, Fin 199), (key_3_Month, Fin 499), (key_6_Month, Fin 999),
      (key_12_Month, Fin 1999)]"

text \<open>
  \<open>PLAN_PRICES\<close> is an object literal, so a key it does not own is looked up in
  \<^verbatim>\<open>Object.prototype\<close>. These are the property keys ECMAScript gives that object
  (sections 20.1.3 and B.2.2).
\<close>

definition Object_prototype_keys :: "jsstring list" where
  "Object_prototype_keys = map ascii
     [''constructor'', ''hasOwnProperty'', ''isPrototypeOf'', ''propertyIsEnumerable'',
      ''toLocaleString'', ''toString'', ''valueOf'', ''__proto__'', ''__defineGetter__'',
      ''__defineSetter__'', ''__lookupGetter__'', ''__lookupSetter__'']"

definition PLAN_PRICES_get :: "jsstring \<Rightarrow> jsval" where \<comment> \<open>\<^verbatim>\<open>PLAN_PRICES[k]\<close>\<close>
  "PLAN_PRICES_get k =
     (case map_of PLAN_PRICES k of
        Some n \<Rightarrow> Num n
      | None \<Rightarrow> if k \<in> set Object_prototype_keys then Inherited k else Undefined)"

text \<open>
  \<open>fileName\<close> stands for the field \<^verbatim>\<open>file\<close>: the name of the selected file when there is one,
  the only part of it the code reads.
  \<open>plan\<close> is a string at run time; its type \<open>PlanKey\<close> is checked at compile time only.
\<close>

record FormState =
  name :: jsstring
  phone :: jsstring
  college :: jsstring
  className :: jsstring
  subject :: jsstring
  pages :: jsnum
  fileName :: "jsstring option"
  "notes" :: jsstring
  address :: jsstring
  plan :: jsstring
  withDiagrams :: bool

definition initialForm :: FormState where \<comment> \<open>the argument of \<^verbatim>\<open>useState<FormState>\<close>\<close>
  "initialForm =
     \<lparr>name = [], phone = [], college = [], className = [], subject = [], pages = Fin 1,
      fileName = None, notes = [], address = [], plan = key_Single, withDiagrams = False\<rparr>"

section \<open>The quote\<close>

definition markup_factor :: jsnum where \<comment> \<open>the literal \<^verbatim>\<open>1.2\<close>\<close>
  "markup_factor = to_double (12 / 10)"

definition estimatedPrice :: "FormState \<Rightarrow> jsval" where
  "estimatedPrice f =
     (let basePrice = nullish_coalesce (PLAN_PRICES_get (plan f)) (Num (Fin 199))
      in if withDiagrams f
         then Num (Math_round (js_mul (ToNumber basePrice) markup_factor))
         else basePrice)"

section \<open>Validation\<close>

definition is_digit :: "16 word \<Rightarrow> bool" where \<comment> \<open>the class \<^verbatim>\<open>\d\<close> of a pattern without the u flag\<close>
  "is_digit c = (0x30 \<le> c \<and> c \<le> 0x39)"

text \<open>
  Matching \<^verbatim>\<open>\d{n}$\<close> from the current position: \<open>n\<close> digits, then the end of the input
  (without the m flag, \<^verbatim>\<open>$\<close> is the end of the input only).
\<close>

fun match_digits :: "nat \<Rightarrow> jsstring \<Rightarrow> bool" where
  "match_digits 0 s = (s = [])"
| "match_digits (Suc n) [] = False"
| "match_digits (Suc n) (c # cs) = (is_digit c \<and> match_digits n cs)"

definition phone_pattern_test :: "jsstring \<Rightarrow> bool" where \<comment> \<open>\<^verbatim>\<open>/^\d{10}$/.test(s)\<close>\<close>
  "phone_pattern_test s = match_digits 10 s"

text \<open>
  The object \<^verbatim>\<open>newErrors\<close> of \<^verbatim>\<open>validateForm\<close>: its properties in the order they are set.
\<close>

definition newErrors :: "FormState \<Rightarrow> (string \<times> jsstring) list" where
  "newErrors f =
     (if trim (name f) = [] then [(''name'', ascii ''Name is required.'')] else []) @
     (if \<not> phone_pattern_test (trim (phone f))
      then [(''phone'', ascii ''Enter a valid 10-digit phone.'')] else []) @
     (if Number_isNaN (pages f) \<or> js_lt (pages f) (Fin 1)
      then [(''pages'', ascii ''Pages must be at least 1.'')] else [])"

section \<open>The component and its submit handler\<close>

datatype timer_action = ResetSubmitting \<comment> \<open>\<^verbatim>\<open>() => setIsSubmitting(false)\<close>\<close>

text \<open>
  The state of the component (\<open>form\<close>, \<open>quote\<close>, \<open>errors\<close>, \<open>isSubmitting\<close>) and what a
  handler does outside it: \<open>defaultPrevented\<close> of the event it handles, the calls of
  \<^verbatim>\<open>window.open\<close> (address and target) and of \<^verbatim>\<open>setTimeout\<close> (delay and action).
\<close>

record App =
  form :: FormState
  quote :: "jsval option"
  errors :: "(string \<times> jsstring) list"
  isSubmitting :: bool
  defaultPrevented :: bool
  opened :: "(jsstring \<times> jsstring) list"
  timers :: "(nat \<times> timer_action) list"

definition initialApp :: App where
  "initialApp =
     \<lparr>form = initialForm, quote = None, errors = [], isSubmitting = False,
      defaultPrevented = False, opened = [], timers = []\<rparr>"

definition validateForm :: "App \<Rightarrow> bool \<times> App" where
  "validateForm a = (newErrors (form a) = [], a\<lparr>errors := newErrors (form a)\<rparr>)"

definition bust_glyph :: jsstring where "bust_glyph = [0xD83D, 0xDC64]"
definition phone_glyph :: jsstring where "phone_glyph = [0xD83D, 0xDCDE]"
definition house_glyph :: jsstring where "house_glyph = [0xD83C, 0xDFE0]"
definition school_glyph :: jsstring where "school_glyph = [0xD83C, 0xDFEB]"
definition books_glyph :: jsstring where "books_glyph = [0xD83D, 0xDCDA]"
definition blue_book_glyph :: jsstring where "blue_book_glyph = [0xD83D, 0xDCD8]"
definition page_glyph :: jsstring where "page_glyph = [0xD83D, 0xDCC4]"
definition palette_glyph :: jsstring where "palette_glyph = [0xD83C, 0xDFA8]"
definition money_bag_glyph :: jsstring where "money_bag_glyph = [0xD83D, 0xDCB0]"
definition memo_glyph :: jsstring where "memo_glyph = [0xD83D, 0xDCDD]"
definition banknote_glyph :: jsstring where "banknote_glyph = [0xD83D, 0xDCB5]"
definition paperclip_glyph :: jsstring where "paperclip_glyph = [0xD83D, 0xDCCE]"

fun or_else :: "jsstring \<Rightarrow> jsstring \<Rightarrow> jsstring" where \<comment> \<open>\<^verbatim>\<open>s || d\<close>: the empty string is falsy\<close>
  "or_else [] d = d"
| "or_else s d = s"

definition diagramsMsg :: "FormState \<Rightarrow> jsstring" where
  "diagramsMsg f =
     (if withDiagrams f then ascii ''YES (+20% markup included)'' else ascii ''NO (Base price)'')"

definition fileMsg :: "FormState \<Rightarrow> jsstring" where
  "fileMsg f =
     (case fileName f of
        Some n \<Rightarrow> paperclip_glyph @ ascii '' File: '' @ n @
          ascii ''. *Please upload this file in our chat after sending this message.*''
      | None \<Rightarrow> paperclip_glyph @
          ascii '' File: None selected. *Please upload your syllabus/content in our chat.*'')"

definition msg :: "(jsval \<Rightarrow> jsstring) \<Rightarrow> FormState \<Rightarrow> jsstring" where
  "msg host f =
     ascii ''*NotebookComplete Order*%0A%0A'' @
     (bust_glyph @ ascii '' Name: '' @ name f @
      ascii ''%0A'' @ phone_glyph @ ascii '' Phone: '' @ phone f @
      ascii ''%0A '' @ house_glyph @ ascii '' Address: '' @ or_else (address f) emdash @
      ascii ''%0A '' @ school_glyph @ ascii '' College: '' @ or_else (college f) emdash @
      ascii ''%0A'' @ books_glyph @ ascii '' Class: '' @ or_else (className f) emdash @
      ascii ''%0A'' @ blue_book_glyph @ ascii '' Subject: '' @ or_else (subject f) emdash @
      ascii ''%0A'' @ page_glyph @ ascii '' Pages: '' @ ToString host (Num (pages f)) @
      ascii ''%0A'' @ palette_glyph @ ascii '' Diagrams/Printouts: '' @ diagramsMsg f @
      ascii ''%0A'' @ money_bag_glyph @ ascii '' Plan: '' @ plan f @
      ascii ''%0A'' @ memo_glyph @ ascii '' Notes: '' @ or_else (notes f) emdash @
      ascii ''%0A'' @ banknote_glyph @ ascii '' Estimated Price: '' @ rupee @
        ToString host (estimatedPrice f) @
      ascii ''%0A%0A'') @
     (fileMsg f @ ascii ''%0A%0A'') @
     ascii ''Please confirm availability and final quote.''"

definition whatsappUrl :: "(jsval \<Rightarrow> jsstring) \<Rightarrow> FormState \<Rightarrow> jsstring" where
  "whatsappUrl host f = ascii ''https://wa.me/911234567890?text='' @ msg host f"

definition handleSubmit :: "(jsval \<Rightarrow> jsstring) \<Rightarrow> App \<Rightarrow> App" where
  "handleSubmit host a =
     (let a1 = a\<lparr>defaultPrevented := True\<rparr>;
          (ok, a2) = validateForm a1
      in if \<not> ok then a2
         else let a3 = a2\<lparr>isSubmitting := True\<rparr>;
                  a4 = a3\<lparr>opened := opened a3 @ [(whatsappUrl host (form a3), ascii ''_blank'')]\<rparr>
              in a4\<lparr>timers := timers a4 @ [(1000, ResetSubmitting)]\<rparr>)"

section \<open>The specification's notions\<close>

text \<open>
  These definitions follow the words of the specification, not the code: the lines it
  says an order message has, the text before any encoding, and percent-decoding.
\<close>

fun join :: "jsstring \<Rightarrow> jsstring list \<Rightarrow> jsstring" where
  "join sep [] = []"
| "join sep [l] = l"
| "join sep (l # ls) = l @ sep @ join sep ls"

definition spec_optional :: "jsstring \<Rightarrow> jsstring" where
  "spec_optional v = (if v = [] then emdash else v)"

definition spec_order_lines :: "(jsval \<Rightarrow> jsstring) \<Rightarrow> FormState \<Rightarrow> jsstring list" where
  "spec_order_lines host f =
     [ascii ''*NotebookComplete Order*'',
      [],
      bust_glyph @ ascii '' Name: '' @ name f,
      phone_glyph @ ascii '' Phone: '' @ phone f,
      ascii '' '' @ house_glyph @ ascii '' Address: '' @ spec_optional (address f),
      ascii '' '' @ school_glyph @ ascii '' College: '' @ spec_optional (college f),
      books_glyph @ ascii '' Class: '' @ spec_optional (className f),
      blue_book_glyph @ ascii '' Subject: '' @ spec_optional (subject f),
      page_glyph @ ascii '' Pages: '' @ ToString host (Num (pages f)),
      palette_glyph @ ascii '' Diagrams/Printouts: '' @
        (if withDiagrams f then ascii ''YES (+20% markup included)''
         else ascii ''NO (Base price)''),
      money_bag_glyph @ ascii '' Plan: '' @ plan f,
      memo_glyph @ ascii '' Notes: '' @ spec_optional (notes f),
      banknote_glyph @ ascii '' Estimated Price: '' @ rupee @ ToString host (estimatedPrice f),
      [],
      (case fileName f of
         None \<Rightarrow> paperclip_glyph @
           ascii '' File: None selected. *Please upload your syllabus/content in our chat.*''
       | Some n \<Rightarrow> paperclip_glyph @ ascii '' File: '' @ n @
           ascii ''. *Please upload this file in our chat after sending this message.*''),
      [],
      ascii ''Please confirm availability and final quote.'']"

definition spec_plain_text :: "(jsval \<Rightarrow> jsstring) \<Rightarrow> FormState \<Rightarrow> jsstring" where
  "spec_plain_text host f = join [0x0A] (spec_order_lines host f)"

text \<open>
  Percent-decoding as the URL standard defines it: a percent sign followed by two
  hexadecimal digits stands for the character with that code (here a code unit below
  256); every other character, a stray percent sign too, stands for itself.
\<close>

definition hex_value :: "16 word \<Rightarrow> nat option" where
  "hex_value c =
     (if 0x30 \<le> c \<and> c \<le> 0x39 then Some (unat c - 0x30)
      else if 0x41 \<le> c \<and> c \<le> 0x46 then Some (unat c - 0x41 + 10)
      else if 0x61 \<le> c \<and> c \<le> 0x66 then Some (unat c - 0x61 + 10)
      else None)"

fun percent_decode :: "jsstring \<Rightarrow> jsstring" where
  "percent_decode (p # h # l # cs) =
     (case (p = 0x25, hex_value h, hex_value l) of
        (True, Some a, Some b) \<Rightarrow> of_nat (16 * a + b) # percent_decode cs
      | _ \<Rightarrow> p # percent_decode (h # l # cs))"
| "percent_decode cs = cs"

declare percent_decode.simps [simp del]

text \<open>The form of the end-to-end scenario of the specification.\<close>

definition scenario_form :: FormState where
  "scenario_form =
     \<lparr>name = ascii ''Asha'', phone = ascii ''9876543210'', college = ascii ''XYZ'',
      className = ascii ''B.Sc II'', subject = ascii ''Physics'', pages = Fin 5,
      fileName = None, notes = [], address = [], plan = key_6_Month, withDiagrams = True\<rparr>"

text \<open>
  A form that passes validation and whose name and notes hold characters with a meaning
  of their own in a query value: a percent escape, an ampersand and a number sign.
\<close>

definition unencoded_form :: FormState where
  "unencoded_form =
     \<lparr>name = ascii ''%41'', phone = ascii ''9876543210'', college = ascii ''XYZ'',
      className = ascii ''B.Sc II'', subject = ascii ''Physics'', pages = Fin 5,
      fileName = None, notes = ascii ''pen & ruler #2'', address = [], plan = key_6_Month,
      withDiagrams = False\<rparr>"

section \<open>Facts about Numbers\<close>

text \<open>\<open>ilog2\<close> is the binary exponent: the power of two at or just below a positive rational.\<close>

lemma bit_length_bounds:
  "0 < n \<Longrightarrow> 2 ^ (bit_length n - 1) \<le> n \<and> n < 2 ^ bit_length n"
proof (induction n rule: bit_length.induct)
  case (1 n)
  show ?case
  proof (cases "n div 2 = 0")
    case True
    with 1(2) have "n = 1" by linarith
    then show ?thesis by (simp add: bit_length.simps)
  next
    case False
    with 1 have ih: "2 ^ (bit_length (n div 2) - 1) \<le> n div 2" "n div 2 < 2 ^ bit_length (n div 2)"
      by auto
    from False have pos: "0 < bit_length (n div 2)"
      by (subst bit_length.simps) simp
    from 1(2) have bl: "bit_length n = Suc (bit_length (n div 2))"
      by (subst bit_length.simps) simp
    from pos have "(2::nat) ^ bit_length (n div 2) = 2 * 2 ^ (bit_length (n div 2) - 1)"
      by (cases "bit_length (n div 2)") simp_all
    with ih(1) have "2 ^ bit_length (n div 2) \<le> n" by linarith
    moreover from ih(2) have "n < 2 * 2 ^ bit_length (n div 2)" by linarith
    ultimately show ?thesis by (simp add: bl)
  qed
qed

lemma ilog2_bounds:
  assumes "0 < x"
  shows "pow2 (ilog2 x) \<le> x \<and> x < pow2 (ilog2 x + 1)"
proof (cases "1 \<le> x")
  case True
  define n where "n = nat \<lfloor>x\<rfloor>"
  from True have n: "0 < n" "of_nat n \<le> x" "x < of_nat n + 1"
    by (simp_all add: n_def) linarith+
  from bit_length_bounds [OF n(1)] have b: "2 ^ (bit_length n - 1) \<le> n" "n + 1 \<le> 2 ^ bit_length n"
    by simp_all
  from n(1) have pos: "0 < bit_length n"
    by (subst bit_length.simps) simp
  have "(2::rat) ^ (bit_length n - 1) = of_nat (2 ^ (bit_length n - 1))" by simp
  also have "\<dots> \<le> of_nat n" using b(1) by (simp only: of_nat_le_iff)
  also have "\<dots> \<le> x" by (rule n(2))
  finally have lo: "(2::rat) ^ (bit_length n - 1) \<le> x" .
  have "x < of_nat (n + 1)" using n(3) by simp
  also have "\<dots> \<le> (of_nat (2 ^ bit_length n) :: rat)" using b(2) by (simp only: of_nat_le_iff)
  finally have hi: "x < 2 ^ bit_length n" by simp
  from pos lo hi True show ?thesis
    by (simp add: ilog2_def pow2_def n_def [symmetric] nat_diff_distrib)
next
  case False
  define y where "y = 1 / x"
  define m where "m = nat (\<lceil>y\<rceil> - 1)"
  from False assms have y: "1 < y" by (simp add: y_def)
  then have "2 \<le> \<lceil>y\<rceil>" by linarith
  then have m: "0 < m" "of_nat m < y" "y \<le> of_nat m + 1"
    by (simp_all add: m_def) linarith+
  from bit_length_bounds [OF m(1)] have b: "2 ^ (bit_length m - 1) \<le> m" "m + 1 \<le> 2 ^ bit_length m"
    by simp_all
  from m(1) have pos: "0 < bit_length m"
    by (subst bit_length.simps) simp
  have "y \<le> of_nat (m + 1)" using m(3) by simp
  also have "\<dots> \<le> (of_nat (2 ^ bit_length m) :: rat)" using b(2) by (simp only: of_nat_le_iff)
  finally have "y \<le> 2 ^ bit_length m" by simp
  with assms have lo: "1 / 2 ^ bit_length m \<le> x"
    by (simp add: y_def field_simps)
  have "(2::rat) ^ (bit_length m - 1) = of_nat (2 ^ (bit_length m - 1))" by simp
  also have "\<dots> \<le> of_nat m" using b(1) by (simp only: of_nat_le_iff)
  also have "\<dots> < y" by (rule m(2))
  finally have "(2::rat) ^ (bit_length m - 1) < y" .
  with assms have hi: "x < 1 / 2 ^ (bit_length m - 1)"
    by (simp add: y_def field_simps)
  have il: "ilog2 x = - int (bit_length m)"
    using False by (simp add: ilog2_def m_def y_def)
  from pos have "pow2 (- int (bit_length m) + 1) = 1 / 2 ^ (bit_length m - 1)"
    by (cases "bit_length m") (simp_all add: pow2_def)
  moreover have "pow2 (- int (bit_length m)) = 1 / 2 ^ bit_length m"
    using pos by (simp add: pow2_def)
  ultimately show ?thesis using lo hi il by simp
qed

section \<open>Facts about the quote\<close>

lemma floor_rat_numeral: "\<lfloor>numeral a / numeral b :: rat\<rfloor> = numeral a div numeral b"
  by (metis floor_divide_of_int_eq of_int_numeral)

lemma bit_length_values:
  "bit_length (Suc 0) = Suc 0" "bit_length 238 = 8" "bit_length 598 = 10"
  "bit_length 1198 = 11" "bit_length 2398 = 12"
  by (simp_all add: bit_length.simps)

lemmas to_double_eval =
  to_double_def ilog2_def pow2_def round_half_even_def Let_def bit_length_values
  floor_rat_numeral

lemma markup_factor_value: "markup_factor = Fin (5404319552844595 / 2 ^ 52)"
  by (simp add: markup_factor_def to_double_eval)

lemma markup_199: "Math_round (js_mul (Fin 199) markup_factor) = Fin 239"
  by (simp add: markup_factor_value js_mul_def to_double_eval)

lemma markup_499: "Math_round (js_mul (Fin 499) markup_factor) = Fin 599"
  by (simp add: markup_factor_value js_mul_def to_double_eval)

lemma markup_999: "Math_round (js_mul (Fin 999) markup_factor) = Fin 1199"
  by (simp add: markup_factor_value js_mul_def to_double_eval)

lemma markup_1999: "Math_round (js_mul (Fin 1999) markup_factor) = Fin 2399"
  by (simp add: markup_factor_value js_mul_def to_double_eval)

lemma markup_NaN: "Math_round (js_mul NaN markup_factor) = NaN"
  by (simp add: js_mul_def)

lemma exact_rounding:
  "\<lfloor>199 * (12 / 10) + 1 / 2 :: rat\<rfloor> = 239" "\<lfloor>499 * (12 / 10) + 1 / 2 :: rat\<rfloor> = 599"
  "\<lfloor>999 * (12 / 10) + 1 / 2 :: rat\<rfloor> = 1199" "\<lfloor>1999 * (12 / 10) + 1 / 2 :: rat\<rfloor> = 2399"
  by (simp_all add: floor_rat_numeral)

lemmas key_defs = key_Single_def key_3_Month_def key_6_Month_def key_12_Month_def

lemma map_of_PLAN_PRICES:
  "map_of PLAN_PRICES key_Single = Some (Fin 199)"
  "map_of PLAN_PRICES key_3_Month = Some (Fin 499)"
  "map_of PLAN_PRICES key_6_Month = Some (Fin 999)"
  "map_of PLAN_PRICES key_12_Month = Some (Fin 1999)"
  by (simp_all add: PLAN_PRICES_def key_defs ascii_def rupee_def)

lemma PLAN_PRICES_cases:
  assumes "map_of PLAN_PRICES k = Some (Fin b)"
  shows "(k, b) \<in> {(key_Single, 199), (key_3_Month, 499), (key_6_Month, 999), (key_12_Month, 1999)}"
  using map_of_SomeD [OF assms] by (auto simp: PLAN_PRICES_def)

lemma estimatedPrice_own:
  "map_of PLAN_PRICES (plan f) = Some p \<Longrightarrow>
   estimatedPrice f = Num (if withDiagrams f then Math_round (js_mul p markup_factor) else p)"
  by (simp add: estimatedPrice_def PLAN_PRICES_get_def)

text \<open>
  C1: for every key of \<open>PLAN_PRICES\<close> the quote is the plan's base price without diagrams
  and the base price times 1.2, rounded, with diagrams; the binary64 product rounds to the
  same integer as the exact one. The keys, base prices and marked-up prices are
  Single 199 and 239, 3-Month 499 and 599, 6-Month 999 and 1199, 12-Month 1999 and 2399.
\<close>

theorem estimatedPrice_recognized_plan:
  assumes "map_of PLAN_PRICES k = Some (Fin b)"
  shows "estimatedPrice (f\<lparr>plan := k, withDiagrams := False\<rparr>) = Num (Fin b) \<and>
         estimatedPrice (f\<lparr>plan := k, withDiagrams := True\<rparr>)
           = Num (Fin (of_int \<lfloor>b * (12 / 10) + 1 / 2\<rfloor>)) \<and>
         (k, b, \<lfloor>b * (12 / 10) + 1 / 2\<rfloor>) \<in>
           set [(key_Single, 199, 239), (key_3_Month, 499, 599), (key_6_Month, 999, 1199),
                (key_12_Month, 1999, 2399)]"
proof -
  have own: "estimatedPrice (f\<lparr>plan := k, withDiagrams := False\<rparr>) = Num (Fin b)"
    using assms by (simp add: estimatedPrice_own)
  have marked: "estimatedPrice (f\<lparr>plan := k, withDiagrams := True\<rparr>)
      = Num (Math_round (js_mul (Fin b) markup_factor))"
    using assms by (simp add: estimatedPrice_own)
  from PLAN_PRICES_cases [OF assms]
  consider "k = key_Single" "b = 199" | "k = key_3_Month" "b = 499"
    | "k = key_6_Month" "b = 999" | "k = key_12_Month" "b = 1999"
    by auto
  then show ?thesis
  proof cases
    case 1
    with own marked show ?thesis by (simp only: markup_199 exact_rounding) simp
  next
    case 2
    with own marked show ?thesis by (simp only: markup_499 exact_rounding) simp
  next
    case 3
    with own marked show ?thesis by (simp only: markup_999 exact_rounding) simp
  next
    case 4
    with own marked show ?thesis by (simp only: markup_1999 exact_rounding) simp
  qed
qed

theorem estimatedPrice_recognized_plan_witness:
  "map_of PLAN_PRICES key_Single = Some (Fin 199) \<and>
   map_of PLAN_PRICES key_3_Month = Some (Fin 499) \<and>
   map_of PLAN_PRICES key_6_Month = Some (Fin 999) \<and>
   map_of PLAN_PRICES key_12_Month = Some (Fin 1999) \<and>
   estimatedPrice (initialForm\<lparr>plan := key_Single, withDiagrams := False\<rparr>) = Num (Fin 199) \<and>
   estimatedPrice (initialForm\<lparr>plan := key_Single, withDiagrams := True\<rparr>) = Num (Fin 239) \<and>
   estimatedPrice (initialForm\<lparr>plan := key_3_Month, withDiagrams := False\<rparr>) = Num (Fin 499) \<and>
   estimatedPrice (initialForm\<lparr>plan := key_3_Month, withDiagrams := True\<rparr>) = Num (Fin 599) \<and>
   estimatedPrice (initialForm\<lparr>plan := key_6_Month, withDiagrams := False\<rparr>) = Num (Fin 999) \<and>
   estimatedPrice (initialForm\<lparr>plan := key_6_Month, withDiagrams := True\<rparr>) = Num (Fin 1199) \<and>
   estimatedPrice (initialForm\<lparr>plan := key_12_Month, withDiagrams := False\<rparr>) = Num (Fin 1999) \<and>
   estimatedPrice (initialForm\<lparr>plan := key_12_Month, withDiagrams := True\<rparr>) = Num (Fin 2399)"
  using estimatedPrice_recognized_plan [OF map_of_PLAN_PRICES(1), of initialForm]
    estimatedPrice_recognized_plan [OF map_of_PLAN_PRICES(2), of initialForm]
    estimatedPrice_recognized_plan [OF map_of_PLAN_PRICES(3), of initialForm]
    estimatedPrice_recognized_plan [OF map_of_PLAN_PRICES(4), of initialForm]
  by (simp only: map_of_PLAN_PRICES exact_rounding) simp

text \<open>
  C7: two forms with the same plan and the same diagrams flag have the same quote, whatever
  their other fields are.
\<close>

theorem estimatedPrice_depends_on_plan_and_flag_only:
  assumes "plan f = plan g" and "withDiagrams f = withDiagrams g"
  shows "estimatedPrice f = estimatedPrice g"
  using assms by (simp add: estimatedPrice_def)

theorem estimatedPrice_depends_on_plan_and_flag_only_witness:
  "estimatedPrice
     (initialForm\<lparr>name := ascii ''Asha'', phone := ascii ''9876543210'', pages := Fin 5,
        fileName := Some (ascii ''syllabus.pdf''), plan := key_6_Month, withDiagrams := True\<rparr>)
   = estimatedPrice
     (initialForm\<lparr>college := ascii ''XYZ'', subject := ascii ''Physics'', pages := NaN,
        notes := ascii ''blue pen'', address := ascii ''12 Hill Road'',
        plan := key_6_Month, withDiagrams := True\<rparr>)"
  using estimatedPrice_depends_on_plan_and_flag_only
    [of "initialForm\<lparr>name := ascii ''Asha'', phone := ascii ''9876543210'', pages := Fin 5,
        fileName := Some (ascii ''syllabus.pdf''), plan := key_6_Month, withDiagrams := True\<rparr>"
       "initialForm\<lparr>college := ascii ''XYZ'', subject := ascii ''Physics'', pages := NaN,
        notes := ascii ''blue pen'', address := ascii ''12 Hill Road'',
        plan := key_6_Month, withDiagrams := True\<rparr>"]
  by simp

lemma PLAN_PRICES_get_toString:
  "PLAN_PRICES_get (ascii ''toString'') = Inherited (ascii ''toString'')"
  by (simp add: PLAN_PRICES_get_def PLAN_PRICES_def key_defs Object_prototype_keys_def ascii_def
      rupee_def)

lemma map_of_PLAN_PRICES_toString: "map_of PLAN_PRICES (ascii ''toString'') = None"
  by (simp add: PLAN_PRICES_def key_defs ascii_def rupee_def)

text \<open>
  C2 as stated fails: \<open>toString\<close> is not a key of \<open>PLAN_PRICES\<close>, yet the lookup finds the
  method every object inherits, which is not nullish, so the default 199 is not taken.
  The quote is then that method without diagrams and not-a-number with diagrams.
\<close>

theorem estimatedPrice_toString_counterexample:
  "map_of PLAN_PRICES (ascii ''toString'') = None \<and>
   estimatedPrice (initialForm\<lparr>plan := ascii ''toString'', withDiagrams := False\<rparr>)
     = Inherited (ascii ''toString'') \<and>
   estimatedPrice (initialForm\<lparr>plan := ascii ''toString'', withDiagrams := False\<rparr>)
     \<noteq> Num (Fin 199) \<and>
   estimatedPrice (initialForm\<lparr>plan := ascii ''toString'', withDiagrams := True\<rparr>) = Num NaN \<and>
   estimatedPrice (initialForm\<lparr>plan := ascii ''toString'', withDiagrams := True\<rparr>)
     \<noteq> Num (Fin 239)"
  by (simp add: estimatedPrice_def PLAN_PRICES_get_toString map_of_PLAN_PRICES_toString
      markup_NaN)

text \<open>
  C2 as amended: for a key that is neither a key of \<open>PLAN_PRICES\<close> nor a property key of
  \<^verbatim>\<open>Object.prototype\<close>, the base price is 199: the quote is 199 without diagrams and 239
  with diagrams.
\<close>

theorem estimatedPrice_unrecognized_plan:
  assumes "map_of PLAN_PRICES k = None" and "k \<notin> set Object_prototype_keys"
  shows "estimatedPrice (f\<lparr>plan := k, withDiagrams := False\<rparr>) = Num (Fin 199) \<and>
         estimatedPrice (f\<lparr>plan := k, withDiagrams := True\<rparr>) = Num (Fin 239)"
  using assms by (simp add: estimatedPrice_def PLAN_PRICES_get_def markup_199)

theorem estimatedPrice_unrecognized_plan_witness:
  "map_of PLAN_PRICES (ascii ''Weekly'') = None \<and>
   ascii ''Weekly'' \<notin> set Object_prototype_keys \<and>
   estimatedPrice (initialForm\<lparr>plan := ascii ''Weekly'', withDiagrams := False\<rparr>) = Num (Fin 199) \<and>
   estimatedPrice (initialForm\<lparr>plan := ascii ''Weekly'', withDiagrams := True\<rparr>) = Num (Fin 239)"
proof -
  have a: "map_of PLAN_PRICES (ascii ''Weekly'') = None"
    by (simp add: PLAN_PRICES_def key_defs ascii_def rupee_def)
  have b: "ascii ''Weekly'' \<notin> set Object_prototype_keys"
    by (simp add: Object_prototype_keys_def ascii_def)
  show ?thesis
    using a b estimatedPrice_unrecognized_plan [OF a b, of initialForm] by simp
qed

section \<open>Facts about validation\<close>

lemma match_digits_iff: "match_digits n s \<longleftrightarrow> length s = n \<and> list_all is_digit s"
proof (induction n arbitrary: s)
  case 0
  then show ?case by auto
next
  case (Suc n)
  then show ?case by (cases s) auto
qed

lemma phone_pattern_test_iff:
  "phone_pattern_test s \<longleftrightarrow> length s = 10 \<and> list_all is_digit s"
  by (simp add: phone_pattern_test_def match_digits_iff)

lemma trim_Nil: "trim [] = []"
  by (simp add: trim_def)

lemma trim_123: "trim (ascii ''123'') = ascii ''123''"
  by (simp add: trim_def ascii_def is_ws_def)

lemma trim_eleven_digits: "trim (ascii ''98765432100'') = ascii ''98765432100''"
  by (simp add: trim_def ascii_def is_ws_def)

lemma trim_ten_digits: "trim (ascii ''9876543210'') = ascii ''9876543210''"
  by (simp add: trim_def ascii_def is_ws_def)

lemma ten_digits_ok: "phone_pattern_test (ascii ''9876543210'')"
  by (simp add: phone_pattern_test_iff ascii_def is_digit_def)

lemma trim_Asha: "trim (ascii ''Asha'') = ascii ''Asha''"
  by (simp add: trim_def ascii_def is_ws_def)

text \<open>
  C5: the name error is reported exactly when the trimmed name is empty, the phone error
  exactly when the trimmed phone is not ten ASCII digits, each with its literal message; the
  form with name "", phone "123" and pages 0 gets the three errors, and a phone of eleven
  digits gets the phone error.
\<close>

theorem newErrors_name_and_phone:
  "map_of (newErrors f) ''name''
     = (if trim (name f) = [] then Some (ascii ''Name is required.'') else None) \<and>
   map_of (newErrors f) ''phone''
     = (if length (trim (phone f)) = 10 \<and> list_all is_digit (trim (phone f)) then None
        else Some (ascii ''Enter a valid 10-digit phone.'')) \<and>
   newErrors (f\<lparr>name := [], phone := ascii ''123'', pages := Fin 0\<rparr>)
     = [(''name'', ascii ''Name is required.''),
        (''phone'', ascii ''Enter a valid 10-digit phone.''),
        (''pages'', ascii ''Pages must be at least 1.'')] \<and>
   map_of (newErrors (f\<lparr>phone := ascii ''98765432100''\<rparr>)) ''phone''
     = Some (ascii ''Enter a valid 10-digit phone.'')"
proof -
  have "map_of (newErrors f) ''name''
     = (if trim (name f) = [] then Some (ascii ''Name is required.'') else None)"
    by (simp add: newErrors_def)
  moreover have "map_of (newErrors f) ''phone''
     = (if length (trim (phone f)) = 10 \<and> list_all is_digit (trim (phone f)) then None
        else Some (ascii ''Enter a valid 10-digit phone.''))"
    by (simp add: newErrors_def phone_pattern_test_iff)
  moreover have "newErrors (f\<lparr>name := [], phone := ascii ''123'', pages := Fin 0\<rparr>)
     = [(''name'', ascii ''Name is required.''),
        (''phone'', ascii ''Enter a valid 10-digit phone.''),
        (''pages'', ascii ''Pages must be at least 1.'')]"
    by (simp add: newErrors_def trim_Nil trim_123 phone_pattern_test_iff) (simp add: ascii_def)
  moreover have "map_of (newErrors (f\<lparr>phone := ascii ''98765432100''\<rparr>)) ''phone''
     = Some (ascii ''Enter a valid 10-digit phone.'')"
    by (simp add: newErrors_def trim_eleven_digits phone_pattern_test_iff) (simp add: ascii_def)
  ultimately show ?thesis by blast
qed

text \<open>
  C4 as stated fails: plus infinity is not a finite number, yet a form with that page
  count (and a valid name and phone) gets no error at all.
\<close>

theorem newErrors_pages_infinity_counterexample:
  "\<not> Number_isFinite PosInf \<and>
   newErrors (initialForm\<lparr>name := ascii ''Asha'', phone := ascii ''9876543210'',
                pages := PosInf\<rparr>) = []"
  by (simp add: newErrors_def trim_Asha trim_ten_digits ten_digits_ok) (simp add: ascii_def)

text \<open>
  C4 as amended: the pages error is reported exactly when the page count is not-a-number or
  less than 1 (minus infinity included); plus infinity gets no error.
\<close>

theorem newErrors_pages:
  "map_of (newErrors f) ''pages''
     = (case pages f of
          NaN \<Rightarrow> Some (ascii ''Pages must be at least 1.'')
        | NegInf \<Rightarrow> Some (ascii ''Pages must be at least 1.'')
        | PosInf \<Rightarrow> None
        | Fin a \<Rightarrow> if a < 1 then Some (ascii ''Pages must be at least 1.'') else None)"
  by (cases "pages f") (simp_all add: newErrors_def)

section \<open>Facts about the submit handler\<close>

text \<open>
  C9: when some field has an error, the handler stops after validation: the state is the
  one before with the errors set and the default action of the event prevented (the first
  step of every submit). No address is opened, no timer is set, the form is not marked as
  submitting, and the handler returns a state, as it does in every case.
\<close>

theorem handleSubmit_blocked_by_validation:
  assumes "(k, e) \<in> set (newErrors (form a))"
  shows "handleSubmit host a = a\<lparr>defaultPrevented := True, errors := newErrors (form a)\<rparr> \<and>
         opened (handleSubmit host a) = opened a \<and>
         timers (handleSubmit host a) = timers a \<and>
         isSubmitting (handleSubmit host a) = isSubmitting a \<and>
         form (handleSubmit host a) = form a \<and>
         errors (handleSubmit host a) = newErrors (form a)"
proof -
  from assms have "newErrors (form a) \<noteq> []" by auto
  then show ?thesis by (simp add: handleSubmit_def validateForm_def)
qed

theorem handleSubmit_blocked_by_validation_witness:
  "(''name'', ascii ''Name is required.'') \<in> set (newErrors (form initialApp)) \<and>
   handleSubmit (\<lambda>v. []) initialApp
     = initialApp\<lparr>defaultPrevented := True, errors := newErrors (form initialApp)\<rparr> \<and>
   opened (handleSubmit (\<lambda>v. []) initialApp) = [] \<and>
   timers (handleSubmit (\<lambda>v. []) initialApp) = [] \<and>
   isSubmitting (handleSubmit (\<lambda>v. []) initialApp) = False"
proof -
  have h: "(''name'', ascii ''Name is required.'') \<in> set (newErrors (form initialApp))"
    by (simp add: newErrors_def initialApp_def initialForm_def trim_Nil)
  show ?thesis
    using h handleSubmit_blocked_by_validation [OF h, of "\<lambda>v. []"]
    by (simp add: initialApp_def)
qed

section \<open>Facts about the order message\<close>

lemma ascii_splits:
  "ascii ''*NotebookComplete Order*%0A%0A''
     = ascii ''*NotebookComplete Order*'' @ ascii ''%0A'' @ ascii ''%0A''"
  "ascii ''%0A '' = ascii ''%0A'' @ ascii '' ''"
  "ascii ''%0A%0A'' = ascii ''%0A'' @ ascii ''%0A''"
  by (simp_all add: ascii_def)

lemma or_else_emdash: "or_else s emdash = spec_optional s"
  by (cases s) (simp_all add: spec_optional_def)

lemma msg_lines: "msg host f = join (ascii ''%0A'') (spec_order_lines host f)"
  by (simp add: msg_def spec_order_lines_def ascii_splits or_else_emdash diagramsMsg_def
      fileMsg_def split: option.split)

lemma sublist_join: "l \<in> set ls \<Longrightarrow> sublist l (join sep ls)"
proof (induction sep ls rule: join.induct)
  case (1 sep)
  then show ?case by simp
next
  case (2 sep l')
  then show ?case by simp
next
  case (3 sep l' m ls)
  show ?case
  proof (cases "l = l'")
    case True
    then show ?thesis by simp
  next
    case False
    with 3 have "sublist l (join sep (m # ls))" by simp
    then have "sublist l ((l' @ sep) @ join sep (m # ls))"
      by (rule sublist_order.order.trans) (rule sublist_append_leftI)
    then show ?thesis by simp
  qed
qed

lemma ToString_5: "ToString host (Num (Fin 5)) = ascii ''5''"
  by (simp add: digits10.simps ascii_def)

lemma ToString_1199: "ToString host (Num (Fin 1199)) = ascii ''1199''"
  by (simp add: digits10.simps ascii_def)

lemma estimatedPrice_scenario: "estimatedPrice scenario_form = Num (Fin 1199)"
  by (simp add: estimatedPrice_own [where p = "Fin 999"] scenario_form_def map_of_PLAN_PRICES
      markup_999)

lemma spec_order_lines_scenario:
  "spec_order_lines host scenario_form =
     [ascii ''*NotebookComplete Order*'',
      [],
      bust_glyph @ ascii '' Name: Asha'',
      phone_glyph @ ascii '' Phone: 9876543210'',
      ascii '' '' @ house_glyph @ ascii '' Address: '' @ emdash,
      ascii '' '' @ school_glyph @ ascii '' College: XYZ'',
      books_glyph @ ascii '' Class: B.Sc II'',
      blue_book_glyph @ ascii '' Subject: Physics'',
      page_glyph @ ascii '' Pages: 5'',
      palette_glyph @ ascii '' Diagrams/Printouts: YES (+20% markup included)'',
      money_bag_glyph @ ascii '' Plan: 6-Month ('' @ rupee @ ascii ''999)'',
      memo_glyph @ ascii '' Notes: '' @ emdash,
      banknote_glyph @ ascii '' Estimated Price: '' @ rupee @ ascii ''1199'',
      [],
      paperclip_glyph @
        ascii '' File: None selected. *Please upload your syllabus/content in our chat.*'',
      [],
      ascii ''Please confirm availability and final quote.'']"
  unfolding spec_order_lines_def estimatedPrice_scenario ToString_1199
  by (simp add: scenario_form_def spec_optional_def key_6_Month_def)
    (simp add: ascii_def digits10.simps)

text \<open>
  C6: the message is the seventeen lines the specification lists (the fourteen fields and
  three empty lines), in that order, joined by \<^verbatim>\<open>%0A\<close>; when the optional fields
  are empty, each of their lines is there with the dash in place of the value.
\<close>

theorem msg_has_every_line:
  "msg host f = join (ascii ''%0A'') (spec_order_lines host f) \<and>
   msg host (f\<lparr>address := [], college := [], className := [], subject := [], notes := []\<rparr>)
     = join (ascii ''%0A'')
        [ascii ''*NotebookComplete Order*'',
         [],
         bust_glyph @ ascii '' Name: '' @ name f,
         phone_glyph @ ascii '' Phone: '' @ phone f,
         ascii '' '' @ house_glyph @ ascii '' Address: '' @ emdash,
         ascii '' '' @ school_glyph @ ascii '' College: '' @ emdash,
         books_glyph @ ascii '' Class: '' @ emdash,
         blue_book_glyph @ ascii '' Subject: '' @ emdash,
         page_glyph @ ascii '' Pages: '' @ ToString host (Num (pages f)),
         palette_glyph @ ascii '' Diagrams/Printouts: '' @ diagramsMsg f,
         money_bag_glyph @ ascii '' Plan: '' @ plan f,
         memo_glyph @ ascii '' Notes: '' @ emdash,
         banknote_glyph @ ascii '' Estimated Price: '' @ rupee @
           ToString host (estimatedPrice f),
         [],
         fileMsg f,
         [],
         ascii ''Please confirm availability and final quote.'']"
proof -
  have "estimatedPrice
      (f\<lparr>address := [], college := [], className := [], subject := [], notes := []\<rparr>)
      = estimatedPrice f"
    by (simp add: estimatedPrice_def)
  then have "spec_order_lines host
      (f\<lparr>address := [], college := [], className := [], subject := [], notes := []\<rparr>)
     =  [ascii ''*NotebookComplete Order*'',
         [],
         bust_glyph @ ascii '' Name: '' @ name f,
         phone_glyph @ ascii '' Phone: '' @ phone f,
         ascii '' '' @ house_glyph @ ascii '' Address: '' @ emdash,
         ascii '' '' @ school_glyph @ ascii '' College: '' @ emdash,
         books_glyph @ ascii '' Class: '' @ emdash,
         blue_book_glyph @ ascii '' Subject: '' @ emdash,
         page_glyph @ ascii '' Pages: '' @ ToString host (Num (pages f)),
         palette_glyph @ ascii '' Diagrams/Printouts: '' @ diagramsMsg f,
         money_bag_glyph @ ascii '' Plan: '' @ plan f,
         memo_glyph @ ascii '' Notes: '' @ emdash,
         banknote_glyph @ ascii '' Estimated Price: '' @ rupee @
           ToString host (estimatedPrice f),
         [],
         fileMsg f,
         [],
         ascii ''Please confirm availability and final quote.'']"
    by (simp add: spec_order_lines_def spec_optional_def diagramsMsg_def fileMsg_def
        split: option.split)
  then show ?thesis
    by (simp only: msg_lines simp_thms)
qed

text \<open>
  C8: for the scenario form the quote is 1199, and the message is the one written out
  here: its diagrams line is the affirmative literal with \<^verbatim>\<open>+20%\<close> and its file line is the
  "None selected" literal; both lines are parts of the message.
\<close>

theorem scenario_quote_and_message:
  "estimatedPrice scenario_form = Num (Fin 1199) \<and>
   msg host scenario_form
     = join (ascii ''%0A'')
        [ascii ''*NotebookComplete Order*'',
         [],
         bust_glyph @ ascii '' Name: Asha'',
         phone_glyph @ ascii '' Phone: 9876543210'',
         ascii '' '' @ house_glyph @ ascii '' Address: '' @ emdash,
         ascii '' '' @ school_glyph @ ascii '' College: XYZ'',
         books_glyph @ ascii '' Class: B.Sc II'',
         blue_book_glyph @ ascii '' Subject: Physics'',
         page_glyph @ ascii '' Pages: 5'',
         palette_glyph @ ascii '' Diagrams/Printouts: YES (+20% markup included)'',
         money_bag_glyph @ ascii '' Plan: 6-Month ('' @ rupee @ ascii ''999)'',
         memo_glyph @ ascii '' Notes: '' @ emdash,
         banknote_glyph @ ascii '' Estimated Price: '' @ rupee @ ascii ''1199'',
         [],
         paperclip_glyph @
           ascii '' File: None selected. *Please upload your syllabus/content in our chat.*'',
         [],
         ascii ''Please confirm availability and final quote.''] \<and>
   sublist (palette_glyph @ ascii '' Diagrams/Printouts: YES (+20% markup included)'')
     (msg host scenario_form) \<and>
   sublist (ascii ''+20%'') (msg host scenario_form) \<and>
   sublist
     (paperclip_glyph @
        ascii '' File: None selected. *Please upload your syllabus/content in our chat.*'')
     (msg host scenario_form)"
proof -
  let ?d = "palette_glyph @ ascii '' Diagrams/Printouts: YES (+20% markup included)''"
  have d: "sublist ?d (msg host scenario_form)"
    unfolding msg_lines by (rule sublist_join) (simp add: spec_order_lines_scenario)
  have "?d = (palette_glyph @ ascii '' Diagrams/Printouts: YES ('') @ ascii ''+20%'' @
      ascii '' markup included)''"
    by (simp add: ascii_def)
  then have "sublist (ascii ''+20%'') ?d"
    by (simp only: sublist_appendI)
  from this d have p: "sublist (ascii ''+20%'') (msg host scenario_form)"
    by (rule sublist_order.order.trans)
  have n: "sublist
     (paperclip_glyph @
        ascii '' File: None selected. *Please upload your syllabus/content in our chat.*'')
     (msg host scenario_form)"
    unfolding msg_lines by (rule sublist_join) (simp add: spec_order_lines_scenario)
  show ?thesis
    using d p n by (simp add: estimatedPrice_scenario msg_lines spec_order_lines_scenario)
qed

section \<open>Facts about whitespace around the name and the phone\<close>

lemma trim_padded:
  assumes "list_all is_ws pre" and "list_all is_ws post"
  shows "trim (pre @ s @ post) = trim s"
proof -
  from assms have pre: "\<And>x. x \<in> set pre \<Longrightarrow> is_ws x" and post: "\<And>x. x \<in> set post \<Longrightarrow> is_ws x"
    and rpost: "\<And>x. x \<in> set (rev post) \<Longrightarrow> is_ws x"
    by (auto simp: list_all_iff)
  have front: "dropWhile is_ws (pre @ s @ post) = dropWhile is_ws (s @ post)"
    using pre by (rule dropWhile_append2)
  show ?thesis
  proof (cases "\<forall>x\<in>set s. is_ws x")
    case True
    with post have sp: "dropWhile is_ws (s @ post) = []" and s: "dropWhile is_ws s = []"
      by auto
    show ?thesis
      unfolding trim_def front sp s by simp
  next
    case False
    then obtain x where "x \<in> set s" and "\<not> is_ws x" by blast
    then have "dropWhile is_ws (s @ post) = dropWhile is_ws s @ post"
      by (rule dropWhile_append1)
    then have "rev (dropWhile is_ws (s @ post)) = rev post @ rev (dropWhile is_ws s)"
      by simp
    moreover have "dropWhile is_ws (rev post @ rev (dropWhile is_ws s))
        = dropWhile is_ws (rev (dropWhile is_ws s))"
      using rpost by (rule dropWhile_append2)
    ultimately show ?thesis
      unfolding trim_def front by (simp only:)
  qed
qed

lemma newErrors_padded_name:
  assumes "list_all is_ws pre" and "list_all is_ws post"
  shows "newErrors (f\<lparr>name := pre @ name f @ post\<rparr>) = newErrors f"
  by (simp add: newErrors_def trim_padded [OF assms])

lemma newErrors_padded_phone:
  assumes "list_all is_ws pre" and "list_all is_ws post"
  shows "newErrors (f\<lparr>phone := pre @ phone f @ post\<rparr>) = newErrors f"
  by (simp add: newErrors_def trim_padded [OF assms])

lemma name_update_irrelevant:
  "estimatedPrice (f\<lparr>name := n\<rparr>) = estimatedPrice f"
  by (simp add: estimatedPrice_def)

lemma phone_update_irrelevant:
  "estimatedPrice (f\<lparr>phone := n\<rparr>) = estimatedPrice f"
  by (simp add: estimatedPrice_def)

lemma msg_around_name:
  "msg host f =
     (ascii ''*NotebookComplete Order*'' @ ascii ''%0A'' @ ascii ''%0A'' @ bust_glyph @
      ascii '' Name: '') @ name f @
     (ascii ''%0A'' @ join (ascii ''%0A'') (drop 3 (spec_order_lines host f)))"
  by (simp add: msg_lines spec_order_lines_def)

lemma msg_around_phone:
  "msg host f =
     (join (ascii ''%0A'') (take 3 (spec_order_lines host f)) @ ascii ''%0A'' @ phone_glyph @
      ascii '' Phone: '') @ phone f @
     (ascii ''%0A'' @ join (ascii ''%0A'') (drop 4 (spec_order_lines host f)))"
  by (simp add: msg_lines spec_order_lines_def)

lemma lines_after_name:
  "drop 3 (spec_order_lines host (f\<lparr>name := n\<rparr>)) = drop 3 (spec_order_lines host f)"
  by (simp add: spec_order_lines_def name_update_irrelevant)

lemma lines_around_phone:
  "take 3 (spec_order_lines host (f\<lparr>phone := n\<rparr>)) = take 3 (spec_order_lines host f)"
  "drop 4 (spec_order_lines host (f\<lparr>phone := n\<rparr>)) = drop 4 (spec_order_lines host f)"
  by (simp_all add: spec_order_lines_def phone_update_irrelevant)

lemma padded_differs:
  assumes "pre @ post \<noteq> []"
  shows "a @ (pre @ s @ post) @ b \<noteq> a @ s @ b"
proof
  assume "a @ (pre @ s @ post) @ b = a @ s @ b"
  then have "length (a @ (pre @ s @ post) @ b) = length (a @ s @ b)"
    by (rule arg_cong)
  with assms show False by (cases pre) auto
qed

text \<open>
  C10: validation looks at the trimmed name and phone, the message takes them as they are.
  If a form passes validation, so does the form with whitespace put around its name, or
  around its phone; the message of the padded form contains the padded value, and it
  differs from the message of the form without the padding.
\<close>

theorem msg_keeps_surrounding_whitespace:
  assumes "newErrors f = []"
    and "list_all is_ws pre" and "list_all is_ws post" and "pre @ post \<noteq> []"
  shows "newErrors (f\<lparr>name := pre @ name f @ post\<rparr>) = [] \<and>
         sublist (pre @ name f @ post) (msg host (f\<lparr>name := pre @ name f @ post\<rparr>)) \<and>
         msg host (f\<lparr>name := pre @ name f @ post\<rparr>) \<noteq> msg host f \<and>
         newErrors (f\<lparr>phone := pre @ phone f @ post\<rparr>) = [] \<and>
         sublist (pre @ phone f @ post) (msg host (f\<lparr>phone := pre @ phone f @ post\<rparr>)) \<and>
         msg host (f\<lparr>phone := pre @ phone f @ post\<rparr>) \<noteq> msg host f"
proof -
  let ?n = "f\<lparr>name := pre @ name f @ post\<rparr>" and ?p = "f\<lparr>phone := pre @ phone f @ post\<rparr>"
  have n: "name ?n = pre @ name f @ post" and p: "phone ?p = pre @ phone f @ post"
    by simp_all
  have "newErrors ?n = []"
    using assms by (simp add: newErrors_padded_name)
  moreover have "sublist (pre @ name f @ post) (msg host ?n)"
    unfolding msg_around_name [of host ?n] n by (rule sublist_appendI)
  moreover have "msg host ?n \<noteq> msg host f"
    unfolding msg_around_name [of host ?n] msg_around_name [of host f] lines_after_name n
    using assms(4) by (rule padded_differs)
  moreover have "newErrors ?p = []"
    using assms by (simp add: newErrors_padded_phone)
  moreover have "sublist (pre @ phone f @ post) (msg host ?p)"
    unfolding msg_around_phone [of host ?p] p by (rule sublist_appendI)
  moreover have "msg host ?p \<noteq> msg host f"
    unfolding msg_around_phone [of host ?p] msg_around_phone [of host f] lines_around_phone p
    using assms(4) by (rule padded_differs)
  ultimately show ?thesis by blast
qed

lemma newErrors_scenario: "newErrors scenario_form = []"
  by (simp add: newErrors_def scenario_form_def trim_Asha trim_ten_digits ten_digits_ok)
    (simp add: ascii_def)

theorem msg_keeps_surrounding_whitespace_witness:
  "newErrors scenario_form = [] \<and> list_all is_ws (ascii '' '') \<and> list_all is_ws [0x09, 0xA0] \<and>
   ascii '' '' @ [0x09, 0xA0] \<noteq> [] \<and>
   newErrors (scenario_form\<lparr>name := ascii '' '' @ name scenario_form @ [0x09, 0xA0]\<rparr>) = [] \<and>
   msg (\<lambda>v. []) (scenario_form\<lparr>name := ascii '' '' @ name scenario_form @ [0x09, 0xA0]\<rparr>)
     \<noteq> msg (\<lambda>v. []) scenario_form \<and>
   newErrors (scenario_form\<lparr>phone := ascii '' '' @ phone scenario_form @ [0x09, 0xA0]\<rparr>) = [] \<and>
   msg (\<lambda>v. []) (scenario_form\<lparr>phone := ascii '' '' @ phone scenario_form @ [0x09, 0xA0]\<rparr>)
     \<noteq> msg (\<lambda>v. []) scenario_form"
proof -
  have a: "list_all is_ws (ascii '' '')" by (simp add: ascii_def is_ws_def)
  have b: "list_all is_ws [0x09, 0xA0]" by (simp add: is_ws_def)
  have c: "ascii '' '' @ [0x09, 0xA0] \<noteq> []" by simp
  from msg_keeps_surrounding_whitespace [OF newErrors_scenario a b c, of "\<lambda>v. []"]
    newErrors_scenario a b c
  show ?thesis by blast
qed

section \<open>Facts about percent-decoding the message\<close>

lemma percent_decode_plain:
  assumes "c \<noteq> 0x25"
  shows "percent_decode (c # cs) = c # percent_decode cs"
proof (cases cs)
  case Nil
  then show ?thesis by (simp add: percent_decode.simps)
next
  case (Cons h t)
  with assms show ?thesis by (cases t) (simp_all add: percent_decode.simps)
qed

lemma percent_decode_escape:
  assumes "hex_value h = Some a" and "hex_value l = Some b"
  shows "percent_decode (0x25 # h # l # cs) = of_nat (16 * a + b) # percent_decode cs"
  using assms by (simp add: percent_decode.simps)

lemma percent_decode_no_percent:
  "0x25 \<notin> set s \<Longrightarrow> percent_decode (s @ t) = s @ percent_decode t"
  by (induction s) (auto simp: percent_decode_plain)

lemma percent_decode_line_break:
  "percent_decode (ascii ''%0A'' @ t) = 0x0A # percent_decode t"
  by (simp add: ascii_def percent_decode_escape [where a = 0 and b = 10] hex_value_def)

lemma glyphs_no_percent:
  "0x25 \<notin> set bust_glyph" "0x25 \<notin> set phone_glyph" "0x25 \<notin> set house_glyph"
  "0x25 \<notin> set school_glyph" "0x25 \<notin> set books_glyph" "0x25 \<notin> set blue_book_glyph"
  "0x25 \<notin> set page_glyph" "0x25 \<notin> set palette_glyph" "0x25 \<notin> set money_bag_glyph"
  "0x25 \<notin> set memo_glyph" "0x25 \<notin> set banknote_glyph" "0x25 \<notin> set paperclip_glyph"
  "0x25 \<notin> set rupee" "0x25 \<notin> set emdash"
  by (simp_all add: bust_glyph_def phone_glyph_def house_glyph_def school_glyph_def
      books_glyph_def blue_book_glyph_def page_glyph_def palette_glyph_def money_bag_glyph_def
      memo_glyph_def banknote_glyph_def paperclip_glyph_def rupee_def emdash_def)

lemma labels_no_percent:
  "0x25 \<notin> set (ascii ''*NotebookComplete Order*'')"
  "0x25 \<notin> set (ascii '' Name: '')" "0x25 \<notin> set (ascii '' Phone: '')"
  "0x25 \<notin> set (ascii '' '')"
  "0x25 \<notin> set (ascii '' Address: '')" "0x25 \<notin> set (ascii '' College: '')"
  "0x25 \<notin> set (ascii '' Class: '')" "0x25 \<notin> set (ascii '' Subject: '')"
  "0x25 \<notin> set (ascii '' Pages: '')" "0x25 \<notin> set (ascii '' Diagrams/Printouts: '')"
  "0x25 \<notin> set (ascii ''NO (Base price)'')"
  "0x25 \<notin> set (ascii '' Plan: '')" "0x25 \<notin> set (ascii '' Notes: '')"
  "0x25 \<notin> set (ascii '' Estimated Price: '')"
  "0x25 \<notin> set (ascii '' File: None selected. *Please upload your syllabus/content in our chat.*'')"
  "0x25 \<notin> set (ascii '' File: '')"
  "0x25 \<notin> set (ascii ''. *Please upload this file in our chat after sending this message.*'')"
  "0x25 \<notin> set (ascii ''Please confirm availability and final quote.'')"
  by (simp_all add: ascii_def)

lemma newErrors_unencoded_form: "newErrors unencoded_form = []"
proof -
  have "trim (ascii ''%41'') = ascii ''%41''"
    by (simp add: trim_def ascii_def is_ws_def)
  then show ?thesis
    by (simp add: newErrors_def unencoded_form_def trim_ten_digits ten_digits_ok)
      (simp add: ascii_def)
qed

lemma sublist_of_line:
  assumes "g @ x \<in> set (spec_order_lines host f)"
  shows "sublist x (msg host f)"
proof -
  have "sublist x (g @ x)" by (rule sublist_append_leftI)
  moreover from assms have "sublist (g @ x) (msg host f)"
    unfolding msg_lines by (rule sublist_join)
  ultimately show ?thesis by (rule sublist_order.order.trans)
qed

lemma percent_decode_escaped_name:
  "name f = ascii ''%41'' \<Longrightarrow>
   percent_decode (msg host f) =
     (ascii ''*NotebookComplete Order*'' @ [0x0A, 0x0A] @ bust_glyph @ ascii '' Name: '') @
     0x41 # percent_decode (ascii ''%0A'' @ join (ascii ''%0A'') (drop 3 (spec_order_lines host f)))"
proof -
  assume n: "name f = ascii ''%41''"
  have e: "percent_decode (ascii ''%41'' @ t) = 0x41 # percent_decode t" for t
    by (simp add: ascii_def percent_decode_escape [where a = 4 and b = 1] hex_value_def)
  have p: "0x25 \<notin> set (bust_glyph @ ascii '' Name: '')"
    by (simp add: glyphs_no_percent labels_no_percent)
  have "percent_decode (msg host f) =
      percent_decode (ascii ''*NotebookComplete Order*'' @ ascii ''%0A'' @ ascii ''%0A'' @
        (bust_glyph @ ascii '' Name: '') @ ascii ''%41'' @
        (ascii ''%0A'' @ join (ascii ''%0A'') (drop 3 (spec_order_lines host f))))"
    by (simp only: msg_around_name [of host f] n append_assoc)
  also have "\<dots> = ascii ''*NotebookComplete Order*'' @ 0x0A # 0x0A #
        (bust_glyph @ ascii '' Name: '') @ 0x41 #
        percent_decode (ascii ''%0A'' @ join (ascii ''%0A'') (drop 3 (spec_order_lines host f)))"
    by (simp only: percent_decode_no_percent [OF labels_no_percent(1)]
        percent_decode_line_break percent_decode_no_percent [OF p] e)
  finally show ?thesis by simp
qed

lemma plain_text_around_name:
  "spec_plain_text host f =
     (ascii ''*NotebookComplete Order*'' @ [0x0A, 0x0A] @ bust_glyph @ ascii '' Name: '') @
     name f @ 0x0A # join [0x0A] (drop 3 (spec_order_lines host f))"
  by (simp add: spec_plain_text_def spec_order_lines_def)

text \<open>
  C3 holds of the specification and fails in the code. \<open>unencoded_form\<close> passes
  validation, and the handler opens the fixed prefix followed by the message, in which the
  name \<^verbatim>\<open>%41\<close> and the notes \<^verbatim>\<open>pen & ruler #2\<close> stand as they were typed:
  the ampersand and the number sign are not encoded, and decoding the message portion
  turns the name into \<^verbatim>\<open>A\<close>, so the decoded text is not the text before encoding.
  Every percent sign of this message starts an escape, so this does not depend on what a
  decoder does with a stray one.
\<close>

theorem handleSubmit_opens_unencoded_text:
  "newErrors unencoded_form = [] \<and>
   opened (handleSubmit (\<lambda>v. []) (initialApp\<lparr>form := unencoded_form\<rparr>))
     = [(ascii ''https://wa.me/911234567890?text='' @ msg (\<lambda>v. []) unencoded_form,
         ascii ''_blank'')] \<and>
   sublist (ascii '' Name: %41'') (msg (\<lambda>v. []) unencoded_form) \<and>
   sublist (ascii '' Notes: pen & ruler #2'') (msg (\<lambda>v. []) unencoded_form) \<and>
   percent_decode (msg (\<lambda>v. []) unencoded_form) \<noteq> spec_plain_text (\<lambda>v. []) unencoded_form"
proof (intro conjI)
  show "newErrors unencoded_form = []"
    by (rule newErrors_unencoded_form)
  show "opened (handleSubmit (\<lambda>v. []) (initialApp\<lparr>form := unencoded_form\<rparr>))
     = [(ascii ''https://wa.me/911234567890?text='' @ msg (\<lambda>v. []) unencoded_form,
         ascii ''_blank'')]"
    by (simp add: handleSubmit_def validateForm_def newErrors_unencoded_form initialApp_def
        whatsappUrl_def)
  have "bust_glyph @ ascii '' Name: %41'' \<in> set (spec_order_lines (\<lambda>v. []) unencoded_form)"
    by (simp add: spec_order_lines_def unencoded_form_def) (simp add: ascii_def)
  then show "sublist (ascii '' Name: %41'') (msg (\<lambda>v. []) unencoded_form)"
    by (rule sublist_of_line)
  have "memo_glyph @ ascii '' Notes: pen & ruler #2''
      \<in> set (spec_order_lines (\<lambda>v. []) unencoded_form)"
    by (simp add: spec_order_lines_def unencoded_form_def spec_optional_def)
      (simp add: ascii_def)
  then show "sublist (ascii '' Notes: pen & ruler #2'') (msg (\<lambda>v. []) unencoded_form)"
    by (rule sublist_of_line)
  have n: "name unencoded_form = ascii ''%41''"
    by (simp add: unencoded_form_def)
  show "percent_decode (msg (\<lambda>v. []) unencoded_form) \<noteq> spec_plain_text (\<lambda>v. []) unencoded_form"
    unfolding percent_decode_escaped_name [OF n] plain_text_around_name n
    by (simp add: ascii_def)
qed

end
